theory Spec2Isabelle
  imports Main
begin

unbundle bit_operations_syntax

section \<open>Values of the environment: errors, big numbers, hashing\<close>

text \<open>
  The JavaScript sources raise two kinds of exception that matter here: the explicit
  \<^verbatim>\<open>throw new Error('Invalid leaf index')\<close> of the proof generators, and the
  \<^verbatim>\<open>TypeError\<close> the runtime raises when a property of \<^verbatim>\<open>undefined\<close> is read.
\<close>

datatype error = InvalidLeafIndex | TypeError

text \<open>
  \<^verbatim>\<open>bn.js\<close> numbers are unbounded integers (\<open>int\<close>). \<^verbatim>\<open>toString(base, padding)\<close>
  writes the digits of the absolute value, prepends zeros until the length is a multiple of
  \<open>padding\<close> (a padding of \<open>0\<close> counts as \<open>1\<close>), and puts a minus sign in front of a
  negative number. \<^verbatim>\<open>new BN(bytes)\<close> reads big-endian bytes; bytes are written here as
  their two hexadecimal digits.
\<close>

definition digit_char :: "int \<Rightarrow> char" where
  "digit_char d = ''0123456789abcdef'' ! nat d"

function digits_of :: "int \<Rightarrow> int \<Rightarrow> string" where
  "digits_of b n =
     (if n < b \<or> b < 2 then [digit_char n] else digits_of b (n div b) @ [digit_char (n mod b)])"
  by pat_completeness auto
termination
  by (relation "measure (\<lambda>(b, n). nat n)") (auto simp: int_div_less_self)

declare digits_of.simps [simp del]

definition zero_pad :: "nat \<Rightarrow> string \<Rightarrow> string" where
  "zero_pad padding out =
     (let p = (if padding = 0 then 1 else padding)
      in replicate ((p - length out mod p) mod p) CHR ''0'' @ out)"

definition bn_toString :: "int \<Rightarrow> nat \<Rightarrow> int \<Rightarrow> string" where
  "bn_toString b padding i =
     (if i < 0 then CHR ''-'' # zero_pad padding (digits_of b (- i))
      else zero_pad padding (digits_of b i))"

definition hex_value :: "char \<Rightarrow> int" where
  "hex_value c =
     (let k = of_char c :: int
      in if 48 \<le> k \<and> k \<le> 57 then k - 48
         else if 97 \<le> k \<and> k \<le> 102 then k - 87
         else if 65 \<le> k \<and> k \<le> 70 then k - 55 else 0)"

fun hex_acc :: "int \<Rightarrow> string \<Rightarrow> int" where
  "hex_acc acc [] = acc"
| "hex_acc acc (c # cs) = hex_acc (16 * acc + hex_value c) cs"

definition bn_of_hex :: "string \<Rightarrow> int" where
  "bn_of_hex s = hex_acc 0 s"

definition remove0x :: "string \<Rightarrow> string" where
  "remove0x s = (if take 2 s = ''0x'' then drop 2 s else s)"

text \<open>
  The hash primitive \<^verbatim>\<open>web3.utils.soliditySha3\<close> belongs to an external library. It is a
  parameter \<open>sha3\<close> of every operation that hashes, so a theorem stated with \<open>sha3\<close> holds
  for any hash function. \<open>toy_sha3\<close> is a stand-in with a 32-byte output (a weighted sum
  of the hexadecimal digits of its input), used only to run the model on concrete inputs.
\<close>

type_synonym hash_fn = "string \<Rightarrow> string"

fun weigh :: "int \<Rightarrow> int \<Rightarrow> string \<Rightarrow> int" where
  "weigh i h [] = h"
| "weigh i h (c # cs) = weigh (i + 1) (h + i * (hex_value c + 1)) cs"

definition toy_sha3 :: hash_fn where
  "toy_sha3 s = ''0x'' @ bn_toString 16 64 (weigh 1 0 s)"

section \<open>Nodes and the generic sum tree (src/sum-tree/sum-tree.js)\<close>

text \<open>
  Modelled from the spec: \<^verbatim>\<open>MerkleTreeNode\<close> (src/sum-tree/merkle-tree-node.js is not among
  the sources). A node is a digest with a sum; its \<^verbatim>\<open>data\<close> is the wire form of the
  specification, the 32-byte digest followed by the sum as 16 big-endian bytes, in
  hexadecimal and without the \<^verbatim>\<open>0x\<close> prefix (the tests compare \<^verbatim>\<open>root().data\<close> with a
  64-digit digest followed by \<^verbatim>\<open>ffffffffffffffffffffffffffffffff\<close>).
\<close>

record node =
  hash :: string
  sum_n :: int

definition MerkleTreeNode :: "string \<Rightarrow> int \<Rightarrow> node" where
  "MerkleTreeNode h s = \<lparr>hash = remove0x h, sum_n = s\<rparr>"

definition data :: "node \<Rightarrow> string" where
  "data n = hash n @ bn_toString 16 32 (sum_n n)"

definition zero_hash :: string where
  "zero_hash = ''0x0000000000000000000000000000000000000000000000000000000000000000''"

definition emptyLeaf :: node where
  "emptyLeaf = MerkleTreeNode zero_hash 0"

definition parent :: "hash_fn \<Rightarrow> node \<Rightarrow> node \<Rightarrow> node" where
  "parent sha3 left right =
     MerkleTreeNode (sha3 (''0x'' @ data left @ data right)) (sum_n left + sum_n right)"

text \<open>
  The loop of \<^verbatim>\<open>generate\<close> walks the children two at a time; the last child of an odd
  level is paired with \<^verbatim>\<open>emptyLeaf()\<close>.
\<close>

fun pair_up :: "hash_fn \<Rightarrow> node list \<Rightarrow> node list" where
  "pair_up sha3 [] = []"
| "pair_up sha3 [left] = [parent sha3 left emptyLeaf]"
| "pair_up sha3 (left # right # rest) = parent sha3 left right # pair_up sha3 rest"

lemma length_pair_up: "length (pair_up sha3 xs) = (length xs + 1) div 2"
  by (induction sha3 xs rule: pair_up.induct) auto

text \<open>
  \<^verbatim>\<open>generate(children, levels)\<close> pushes each new level onto the array \<^verbatim>\<open>levels\<close> it was
  given and returns that array, except in the base case, where it returns the fresh array
  \<^verbatim>\<open>[children]\<close>. The model returns the pair of the returned value and the array
  \<^verbatim>\<open>levels\<close> as the call leaves it; the result of the inner call is dropped, as in the
  source.
\<close>

function generate :: "hash_fn \<Rightarrow> node list \<Rightarrow> node list list \<Rightarrow> node list list \<times> node list list" where
  "generate sha3 children levels =
     (if length children \<le> 1 then ([children], levels)
      else
        let parents = pair_up sha3 children;
            levels1 = levels @ [parents];
            levels2 = snd (generate sha3 parents levels1)
        in (levels2, levels2))"
  by pat_completeness auto
termination
  by (relation "measure (\<lambda>(sha3, children, levels). length children)")
     (auto simp: length_pair_up)

declare generate.simps [simp del]

text \<open>The levels that \<^verbatim>\<open>generate\<close> pushes above a level, bottom to top.\<close>

function levels_above :: "hash_fn \<Rightarrow> node list \<Rightarrow> node list list" where
  "levels_above sha3 children =
     (if length children \<le> 1 then []
      else pair_up sha3 children # levels_above sha3 (pair_up sha3 children))"
  by pat_completeness auto
termination
  by (relation "measure (\<lambda>(sha3, children). length children)")
     (auto simp: length_pair_up)

declare levels_above.simps [simp del]

text \<open>
  The constructor. \<^verbatim>\<open>parseLeaves\<close> is a method the subclass overrides, so it is a
  parameter; it may raise. A missing argument (\<^verbatim>\<open>!leaves\<close>) is \<open>None\<close>; an empty array is
  truthy in JavaScript and takes the second branch.
\<close>

record 'a tree =
  leaves :: "'a list"
  levels :: "node list list"

definition new_tree :: "hash_fn \<Rightarrow> ('a list \<Rightarrow> error + node list) \<Rightarrow> 'a list option \<Rightarrow> error + 'a tree" where
  "new_tree sha3 parse arg =
     (case arg of
        None \<Rightarrow> Inr \<lparr>leaves = [], levels = fst (generate sha3 [] [[]])\<rparr>
      | Some ls \<Rightarrow>
          (case parse ls of
             Inl e \<Rightarrow> Inl e
           | Inr bottom \<Rightarrow> Inr \<lparr>leaves = ls, levels = fst (generate sha3 bottom [bottom])\<rparr>))"

text \<open>
  \<^verbatim>\<open>root()\<close> reads \<^verbatim>\<open>this.levels[this.levels.length - 1][0]\<close>: reading index \<open>0\<close> of an
  empty level gives \<^verbatim>\<open>undefined\<close> (\<open>None\<close>), reading a level of an empty array of levels
  raises.
\<close>

definition root :: "'a tree \<Rightarrow> error + node option" where
  "root t =
     (if levels t = [] then Inl TypeError
      else case last (levels t) of [] \<Rightarrow> Inr None | n # _ \<Rightarrow> Inr (Some n))"




section \<open>The Plasma sum tree (src/sum-tree/plasma-sum-tree.js)\<close>

text \<open>
  The subclass calls \<^verbatim>\<open>hash\<close>, \<^verbatim>\<open>emptyLeaf\<close> and \<^verbatim>\<open>parent\<close> through the class
  (\<^verbatim>\<open>PlasmaMerkleSumTree.hash(...)\<close>); the model reads each call as a call of the method of
  that name in sum-tree.js.

  Modelled from the spec: the constants (src/constants.js is not among the sources).
  \<^verbatim>\<open>MIN_COIN_ID\<close> is \<open>0\<close> and \<^verbatim>\<open>MAX_COIN_ID\<close> is \<open>2^128 - 1\<close>, the sum the tests
  expect at every root.
\<close>

definition MIN_COIN_ID :: int where
  "MIN_COIN_ID = 0"

definition MAX_COIN_ID :: int where
  "MAX_COIN_ID = 2 ^ 128 - 1"

text \<open>
  Modelled from the spec: the serialization models (only their index is among the
  sources). A transfer is read through its \<^verbatim>\<open>start\<close> and \<^verbatim>\<open>end\<close> (unsigned fixed-width
  numbers, here \<open>tstart\<close> and \<open>tend\<close>), a transaction through its \<^verbatim>\<open>transfers\<close> and its
  \<^verbatim>\<open>encoded\<close> hexadecimal form, a transfer proof through the four fields of its schema.
  An element of \<^verbatim>\<open>inclusionProof\<close> is the 48-byte \<^verbatim>\<open>data\<close> of a node, written in
  hexadecimal, or \<^verbatim>\<open>undefined\<close> (\<open>None\<close>).
\<close>

record transfer =
  tstart :: nat
  tend :: nat

record transaction =
  transfers :: "transfer list"
  encoded :: string

record TransferProof =
  parsedSum :: int
  leafIndex :: int
  inclusionProof :: "string option list"
  signature :: string

record TransactionProof =
  transferProofs :: "TransferProof list"

text \<open>The objects \<^verbatim>\<open>{start, end, encoded}\<close> that \<^verbatim>\<open>parseLeaves\<close> builds.\<close>

record parsed_transfer =
  lstart :: nat
  lend :: nat
  lencoded :: string

text \<open>
  The comparator of the sort is \<^verbatim>\<open>a.start - b.start\<close> on two \<^verbatim>\<open>bn.js\<close> objects. The
  subtraction converts each operand to a JavaScript Number through its decimal string,
  that is to the nearest double, ties to even: \<open>to_number\<close> is the integer value of that
  double (the fixed-width start values are far below the range where a double
  overflows). The difference of two doubles is negative, zero or positive exactly as
  their values compare, and \<^verbatim>\<open>Array.prototype.sort\<close> is stable, so the sort is the stable
  sort by the key \<open>to_number\<close> of the start.
\<close>

function bit_length :: "nat \<Rightarrow> nat" where
  "bit_length n = (if n = 0 then 0 else Suc (bit_length (n div 2)))"
  by pat_completeness auto
termination
  by (relation "measure id") auto

declare bit_length.simps [simp del]

definition to_number :: "nat \<Rightarrow> nat" where
  "to_number n =
     (if n < 2 ^ 53 then n
      else
        let e = bit_length n - 53;
            q = n div 2 ^ e;
            r = n mod 2 ^ e;
            half = 2 ^ (e - 1)
        in if half < r \<or> (r = half \<and> odd q) then (q + 1) * 2 ^ e else q * 2 ^ e)"

definition sort_by_start :: "parsed_transfer list \<Rightarrow> parsed_transfer list" where
  "sort_by_start ls = sort_key (\<lambda>l. to_number (lstart l)) ls"

definition parse_transfers :: "transaction list \<Rightarrow> parsed_transfer list" where
  "parse_transfers txs =
     sort_by_start
       (concat (map (\<lambda>curr.
          map (\<lambda>transfer. \<lparr>lstart = tstart transfer, lend = tend transfer,
                           lencoded = ''0x'' @ encoded curr\<rparr>) (transfers curr)) txs))"

text \<open>
  \<^verbatim>\<open>parseLeaves\<close>: with no leaf at all, \<^verbatim>\<open>leaves[0].encoded\<close> reads a property of
  \<^verbatim>\<open>undefined\<close> and raises.
\<close>

definition parseLeaves :: "hash_fn \<Rightarrow> transaction list \<Rightarrow> error + node list" where
  "parseLeaves sha3 txs =
     (let ls = parse_transfers txs
      in if length ls = 1 then Inr [MerkleTreeNode (sha3 (lencoded (ls ! 0))) MAX_COIN_ID]
         else
           let parsed =
                 map (\<lambda>i. MerkleTreeNode (sha3 (lencoded (ls ! i)))
                             (int (lstart (ls ! (i + 1))) - int (lstart (ls ! i))))
                     [1 ..< length ls - 1]
           in if ls = [] then Inl TypeError
              else Inr ([MerkleTreeNode (sha3 (lencoded (ls ! 0)))
                           (int (lstart (ls ! 1)) - MIN_COIN_ID)]
                        @ parsed
                        @ [MerkleTreeNode (sha3 (lencoded (ls ! (length ls - 1))))
                             (MAX_COIN_ID - int (lstart (ls ! (length ls - 1))))]))"

definition PlasmaMerkleSumTree :: "hash_fn \<Rightarrow> transaction list option \<Rightarrow> error + transaction tree" where
  "PlasmaMerkleSumTree sha3 arg = new_tree sha3 (parseLeaves sha3) arg"

subsection \<open>Proof generation\<close>

text \<open>
  The variable \<^verbatim>\<open>node\<close> of the two generators holds a tree node, or, when the slot
  \<^verbatim>\<open>levels[i][siblingIndex]\<close> is \<^verbatim>\<open>undefined\<close>, the string \<^verbatim>\<open>emptyLeaf().data\<close>. The
  loop pushes \<^verbatim>\<open>node.data\<close> in both cases, and a string has no property \<^verbatim>\<open>data\<close>.
\<close>

datatype js_node = Node node | Str string

fun data_of :: "js_node \<Rightarrow> string option" where
  "data_of (Node n) = Some (data n)"
| "data_of (Str s) = None"

definition sibling_of :: "nat \<Rightarrow> nat" where
  "sibling_of i = (if i mod 2 = 0 then i + 1 else i - 1)"

fun branch_loop :: "node list list \<Rightarrow> nat \<Rightarrow> string option list" where
  "branch_loop [] siblingIndex = []"
| "branch_loop (level # rest) siblingIndex =
     (let node = (if siblingIndex < length level then Node (level ! siblingIndex)
                  else Str (data emptyLeaf));
          parentIndex = (if siblingIndex = 0 then 0 else siblingIndex div 2)
      in data_of node # branch_loop rest (sibling_of parentIndex))"

text \<open>
  The loop runs over the levels \<open>0, \<dots>, levels.length - 2\<close>, that is over all levels but
  the last. \<^verbatim>\<open>this.levels[0]\<close> of an empty array of levels is \<^verbatim>\<open>undefined\<close>, and reading
  its length raises.
\<close>

definition getInclusionProof :: "'a tree \<Rightarrow> int \<Rightarrow> error + string option list" where
  "getInclusionProof t index =
     (if levels t = [] then Inl TypeError
      else if int (length (levels t ! 0)) \<le> index \<or> index < 0 then Inl InvalidLeafIndex
      else Inr (Some (data (MerkleTreeNode zero_hash (sum_n (levels t ! 0 ! nat index))))
                # branch_loop (butlast (levels t)) (sibling_of (nat index))))"

definition stub_signature :: string where
  "stub_signature = ''1bd693b532a80fed6392b428604171fb32fdbf953728a3a7ecc7d4062b1652c04224e9c602ac800b983b035700a14b23f78a253ab762deab5dc27e3555a750b354''"

definition getTransferProof :: "'a tree \<Rightarrow> int \<Rightarrow> error + TransferProof" where
  "getTransferProof t index =
     (if levels t = [] then Inl TypeError
      else if int (length (levels t ! 0)) \<le> index \<or> index < 0 then Inl InvalidLeafIndex
      else Inr \<lparr>parsedSum = sum_n (levels t ! 0 ! nat index),
                leafIndex = index,
                inclusionProof = branch_loop (butlast (levels t)) (sibling_of (nat index)),
                signature = stub_signature\<rparr>)"

subsection \<open>Proof verification\<close>

definition checkSignature :: "string \<Rightarrow> string \<Rightarrow> bool" where
  "checkSignature transactionHash sig = True"

text \<open>\<^verbatim>\<open>buffer.slice(from, to)\<close> on bytes written as two hexadecimal digits each.\<close>

definition slice :: "nat \<Rightarrow> nat \<Rightarrow> string \<Rightarrow> string" where
  "slice from to s = take (2 * (to - from)) (drop (2 * from) s)"

text \<open>\<^verbatim>\<open>a.add(b)\<close> of \<^verbatim>\<open>bn.js\<close> returns the sum as a new number and leaves \<^verbatim>\<open>a\<close> as it is.\<close>

definition bn_add :: "int \<Rightarrow> int \<Rightarrow> int" where
  "bn_add a b = a + b"

text \<open>
  The loop of \<^verbatim>\<open>checkTransferProof\<close> over the state \<^verbatim>\<open>(computedNode, leftSum, rightSum)\<close>.
  The statements \<^verbatim>\<open>rightSum.add(sibling.sum)\<close> and \<^verbatim>\<open>leftSum.add(sibling.sum)\<close> compute a
  number and drop it. \<^verbatim>\<open>path[i]\<close> beyond the end of the string is \<^verbatim>\<open>undefined\<close>, which is
  not \<^verbatim>\<open>'0'\<close>. An \<^verbatim>\<open>undefined\<close> element of the proof raises at \<^verbatim>\<open>encodedSibling.slice\<close>.
\<close>

fun check_loop :: "hash_fn \<Rightarrow> string \<Rightarrow> string option list \<Rightarrow> nat \<Rightarrow> node \<times> int \<times> int
    \<Rightarrow> error + node \<times> int \<times> int" where
  "check_loop sha3 path [] i state = Inr state"
| "check_loop sha3 path (None # rest) i state = Inl TypeError"
| "check_loop sha3 path (Some encodedSibling # rest) i (computedNode, leftSum, rightSum) =
     (let sibling = MerkleTreeNode
                      (bn_toString 16 64 (bn_of_hex (slice 0 32 encodedSibling)))
                      (bn_of_hex (slice 32 48 encodedSibling))
      in if i < length path \<and> path ! i = CHR ''0''
         then (let dropped = bn_add rightSum (sum_n sibling)
               in check_loop sha3 path rest (Suc i)
                    (parent sha3 computedNode sibling, leftSum, rightSum))
         else (let dropped = bn_add leftSum (sum_n sibling)
               in check_loop sha3 path rest (Suc i)
                    (parent sha3 sibling computedNode, leftSum, rightSum)))"

text \<open>
  \<^verbatim>\<open>checkTransferProof\<close> on a transaction object and a proof object (the two branches
  that first decode a serialized string are outside the model).
  \<^verbatim>\<open>transaction.transfers[transferIndex]\<close> out of range is \<^verbatim>\<open>undefined\<close>, and reading its
  \<^verbatim>\<open>decoded\<close> raises.
\<close>

definition checkTransferProof :: "hash_fn \<Rightarrow> transaction \<Rightarrow> nat \<Rightarrow> TransferProof \<Rightarrow> string \<Rightarrow> error + bool" where
  "checkTransferProof sha3 tx transferIndex transferProof rt =
     (let path = rev (bn_toString 2 (length (inclusionProof transferProof)) (leafIndex transferProof));
          transactionHash = sha3 (''0x'' @ encoded tx)
      in if \<not> checkSignature transactionHash (signature transferProof) then Inr False
         else
           case check_loop sha3 path (inclusionProof transferProof) 0
                  (MerkleTreeNode transactionHash (parsedSum transferProof), 0, 0) of
             Inl e \<Rightarrow> Inl e
           | Inr (computedNode, leftSum, rightSum) \<Rightarrow>
               let rootSum = sum_n computedNode
               in if length (transfers tx) \<le> transferIndex then Inl TypeError
                  else
                    let tr = transfers tx ! transferIndex;
                        validSum = (leftSum \<le> int (tstart tr) \<and> int (tend tr) \<le> rootSum - rightSum);
                        validRoot = (data computedNode = rt)
                    in Inr (validSum \<and> validRoot))"

text \<open>
  \<^verbatim>\<open>Array.prototype.every\<close> calls the check on each proof with its index, stops with
  \<^verbatim>\<open>false\<close> at the first check that returns \<^verbatim>\<open>false\<close>, and lets an exception through.
\<close>

fun every_from :: "(nat \<Rightarrow> 'a \<Rightarrow> error + bool) \<Rightarrow> nat \<Rightarrow> 'a list \<Rightarrow> error + bool" where
  "every_from f i [] = Inr True"
| "every_from f i (x # xs) =
     (case f i x of
        Inl e \<Rightarrow> Inl e
      | Inr b \<Rightarrow> if b then every_from f (Suc i) xs else Inr False)"

definition checkTransactionProof :: "hash_fn \<Rightarrow> transaction \<Rightarrow> TransactionProof \<Rightarrow> string \<Rightarrow> error + bool" where
  "checkTransactionProof sha3 tx transactionProof rt =
     every_from (\<lambda>transferIndex transferProof. checkTransferProof sha3 tx transferIndex transferProof rt)
       0 (transferProofs transactionProof)"

subsection \<open>The verifier as the specification words it\<close>



subsection \<open>The transactions of the tests\<close>

text \<open>
  The three transactions of test/sum-tree/test-plasma-sum-tree.js, each with one transfer;
  a one-byte string stands for the encoded form.
\<close>

definition tx1 :: transaction where
  "tx1 = \<lparr>transfers = [\<lparr>tstart = 2, tend = 3\<rparr>], encoded = ''a1''\<rparr>"

definition tx2 :: transaction where
  "tx2 = \<lparr>transfers = [\<lparr>tstart = 6, tend = 7\<rparr>], encoded = ''b2''\<rparr>"

definition tx3 :: transaction where
  "tx3 = \<lparr>transfers = [\<lparr>tstart = 100, tend = 108\<rparr>], encoded = ''c3''\<rparr>"


definition tx5 :: transaction where
  "tx5 = \<lparr>transfers = [\<lparr>tstart = 9007199254740993, tend = 9007199254740994\<rparr>], encoded = ''e5''\<rparr>"

definition tx6 :: transaction where
  "tx6 = \<lparr>transfers = [\<lparr>tstart = 9007199254740992, tend = 9007199254740993\<rparr>], encoded = ''f6''\<rparr>"

text \<open>The proof of the only leaf of the tree built from \<open>tx1\<close> alone.\<close>

definition proof1 :: TransferProof where
  "proof1 = \<lparr>parsedSum = MAX_COIN_ID, leafIndex = 0, inclusionProof = [], signature = stub_signature\<rparr>"

section \<open>Running the model on concrete inputs\<close>

lemma replicate_num: "replicate (numeral k) x = x # replicate (pred_numeral k) x"
  by (simp add: numeral_eq_Suc)

lemmas bn_eval = bn_toString_def zero_pad_def digits_of.simps digit_char_def replicate_num
  bn_of_hex_def hex_value_def

lemmas node_eval = MerkleTreeNode_def data_def emptyLeaf_def zero_hash_def remove0x_def

lemmas tx_eval = tx1_def tx2_def tx3_def


lemma tx_sel:
  "encoded tx1 = ''a1''" "transfers tx1 = [\<lparr>tstart = 2, tend = 3\<rparr>]"
  "encoded tx2 = ''b2''" "transfers tx2 = [\<lparr>tstart = 6, tend = 7\<rparr>]"
  "encoded tx3 = ''c3''" "transfers tx3 = [\<lparr>tstart = 100, tend = 108\<rparr>]"
  by (simp_all add: tx_eval)

section \<open>The levels of a tree\<close>

lemma levels_above_short: "length children \<le> 1 \<Longrightarrow> levels_above sha3 children = []"
  by (simp add: levels_above.simps [of sha3 children])

lemma levels_above_long:
  "\<not> length children \<le> 1 \<Longrightarrow>
     levels_above sha3 children = pair_up sha3 children # levels_above sha3 (pair_up sha3 children)"
  by (simp add: levels_above.simps [of sha3 children])

lemma snd_generate: "snd (generate sha3 children lv) = lv @ levels_above sha3 children"
proof (induction sha3 children lv rule: generate.induct)
  case (1 sha3 children lv)
  show ?case
  proof (cases "length children \<le> 1")
    case True
    then show ?thesis
      by (simp add: generate.simps [of sha3 children lv] levels_above_short)
  next
    case False
    then show ?thesis
      using "1.IH" [OF False refl refl]
      by (simp add: generate.simps [of sha3 children lv] levels_above_long Let_def)
  qed
qed

lemma fst_generate: "fst (generate sha3 children [children]) = children # levels_above sha3 children"
proof (cases "length children \<le> 1")
  case True
  then show ?thesis
    by (simp add: generate.simps [of sha3 children] levels_above_short)
next
  case False
  then show ?thesis
    using snd_generate [of sha3 "pair_up sha3 children" "[children, pair_up sha3 children]"]
    by (simp add: generate.simps [of sha3 children] levels_above_long Let_def)
qed

lemma fst_generate_empty: "fst (generate sha3 [] lv) = [[]]"
  by (simp add: generate.simps [of sha3 "[]"])



lemma levels_new_tree:
  "new_tree sha3 parse arg = Inr t \<Longrightarrow>
     \<exists>bottom. levels t = bottom # levels_above sha3 bottom \<and>
       (case arg of None \<Rightarrow> bottom = [] | Some ls \<Rightarrow> parse ls = Inr bottom)"
  by (auto simp: new_tree_def fst_generate fst_generate_empty levels_above_short
      split: option.splits sum.splits)


section \<open>Leaf parsing and sums\<close>

lemma sum_n_MerkleTreeNode [simp]: "sum_n (MerkleTreeNode h s) = s"
  by (simp add: MerkleTreeNode_def)

lemma hash_MerkleTreeNode [simp]: "hash (MerkleTreeNode h s) = remove0x h"
  by (simp add: MerkleTreeNode_def)

lemma parseLeaves_one:
  "length (parse_transfers txs) = 1 \<Longrightarrow>
     parseLeaves sha3 txs
       = Inr [MerkleTreeNode (sha3 (lencoded (parse_transfers txs ! 0))) MAX_COIN_ID]"
  by (simp add: parseLeaves_def)

lemma parseLeaves_many:
  "1 < length (parse_transfers txs) \<Longrightarrow>
     parseLeaves sha3 txs
       = Inr ([MerkleTreeNode (sha3 (lencoded (parse_transfers txs ! 0)))
                 (int (lstart (parse_transfers txs ! 1)) - MIN_COIN_ID)]
              @ map (\<lambda>i. MerkleTreeNode (sha3 (lencoded (parse_transfers txs ! i)))
                           (int (lstart (parse_transfers txs ! (i + 1)))
                              - int (lstart (parse_transfers txs ! i))))
                    [1 ..< length (parse_transfers txs) - 1]
              @ [MerkleTreeNode
                   (sha3 (lencoded (parse_transfers txs ! (length (parse_transfers txs) - 1))))
                   (MAX_COIN_ID
                      - int (lstart (parse_transfers txs ! (length (parse_transfers txs) - 1))))])"
  by (auto simp: parseLeaves_def Let_def)



lemma length_parse_transfers:
  "length (parse_transfers txs) = length (concat (map transfers txs))"
  by (simp add: parse_transfers_def sort_by_start_def length_concat comp_def)

text \<open>Below \<open>2^53\<close> the comparator is exact: the sort is ascending by start, and stable.\<close>

lemma to_number_small: "n < 2 ^ 53 \<Longrightarrow> to_number n = n"
  by (simp add: to_number_def)

lemma insort_key_agree:
  "f x = g x \<Longrightarrow> \<forall>y\<in>set ys. f y = g y \<Longrightarrow> insort_key f x ys = insort_key g x ys"
  by (induction ys) auto

lemma sort_key_agree:
  "\<forall>x\<in>set xs. f x = g x \<Longrightarrow> sort_key f xs = sort_key g xs"
proof (induction xs)
  case Nil
  then show ?case by simp
next
  case (Cons x xs)
  then have "sort_key f xs = sort_key g xs" by simp
  moreover have "\<forall>y\<in>set (sort_key g xs). f y = g y" using Cons.prems by simp
  ultimately show ?case
    using Cons.prems insort_key_agree [of f x g "sort_key g xs"] by simp
qed

lemma sort_by_start_small:
  assumes "\<forall>l\<in>set ls. lstart l < 2 ^ 53"
  shows "sorted (map lstart (sort_by_start ls))"
    and "filter (\<lambda>l. lstart l = k) (sort_by_start ls) = filter (\<lambda>l. lstart l = k) ls"
proof -
  have "sort_by_start ls = sort_key lstart ls"
    unfolding sort_by_start_def using assms
    by (intro sort_key_agree) (simp add: to_number_small)
  then show "sorted (map lstart (sort_by_start ls))"
    and "filter (\<lambda>l. lstart l = k) (sort_by_start ls) = filter (\<lambda>l. lstart l = k) ls"
    by (simp_all add: sort_key_stable)
qed






section \<open>Checking all the proofs of a transaction\<close>

lemma every_from_True:
  "every_from f i xs = Inr True \<longleftrightarrow> (\<forall>k<length xs. f (i + k) (xs ! k) = Inr True)"
proof (induction xs arbitrary: i)
  case Nil
  then show ?case by simp
next
  case (Cons x xs)
  show ?case
  proof (cases "f i x = Inr True")
    case True
    have "(\<forall>k<length (x # xs). f (i + k) ((x # xs) ! k) = Inr True)
            \<longleftrightarrow> (\<forall>k<length xs. f (Suc i + k) (xs ! k) = Inr True)"
      using True by (auto simp: less_Suc_eq_0_disj)
    with True Cons.IH [of "Suc i"] show ?thesis by simp
  next
    case False
    then have "every_from f i (x # xs) \<noteq> Inr True"
      by (auto split: sum.splits)
    moreover have "\<not> (\<forall>k<length (x # xs). f (i + k) ((x # xs) ! k) = Inr True)"
      using False by (auto intro: exI [of _ 0])
    ultimately show ?thesis by blast
  qed
qed

lemma check_proof1:
  "checkTransferProof toy_sha3 tx1 0 proof1 (data (MerkleTreeNode (toy_sha3 ''0xa1'') MAX_COIN_ID)) = Inr True"
  by (simp add: checkTransferProof_def proof1_def checkSignature_def tx_eval MAX_COIN_ID_def bn_eval)

lemma check_proof1_wrong_root:
  "checkTransferProof toy_sha3 tx1 0 proof1 ''00'' = Inr False"
  by (simp add: checkTransferProof_def proof1_def checkSignature_def tx_eval MAX_COIN_ID_def bn_eval
      data_def MerkleTreeNode_def)

lemma plasma_tree_levels:
  "PlasmaMerkleSumTree sha3 arg = Inr t \<Longrightarrow>
     \<exists>bottom. levels t = bottom # levels_above sha3 bottom \<and>
       (case arg of None \<Rightarrow> bottom = [] | Some txs \<Rightarrow> parseLeaves sha3 txs = Inr bottom)"
  unfolding PlasmaMerkleSumTree_def by (rule levels_new_tree)

section \<open>Sibling paths\<close>





section \<open>The trees of the test transactions\<close>

lemma plasma_tree_built:
  assumes "parse_transfers txs \<noteq> []"
  shows "\<exists>t ps. PlasmaMerkleSumTree sha3 (Some txs) = Inr t \<and> parseLeaves sha3 txs = Inr ps
           \<and> length ps = length (parse_transfers txs)
           \<and> levels t = ps # levels_above sha3 ps \<and> leaves t = txs"
proof (cases "length (parse_transfers txs) = 1")
  case True
  then show ?thesis
    by (simp add: PlasmaMerkleSumTree_def new_tree_def fst_generate parseLeaves_one)
next
  case False
  with assms have "1 < length (parse_transfers txs)"
    by (cases "parse_transfers txs") auto
  then show ?thesis
    by (simp add: PlasmaMerkleSumTree_def new_tree_def fst_generate parseLeaves_many)
qed

lemma levels_above_3:
  "length ps = 3 \<Longrightarrow>
     levels_above sha3 ps = [pair_up sha3 ps, pair_up sha3 (pair_up sha3 ps)]"
  by (simp add: levels_above_long levels_above_short length_pair_up)


lemma parse_transfers_123:
  "parse_transfers [tx1, tx2, tx3]
     = [\<lparr>lstart = 2, lend = 3, lencoded = ''0xa1''\<rparr>, \<lparr>lstart = 6, lend = 7, lencoded = ''0xb2''\<rparr>,
        \<lparr>lstart = 100, lend = 108, lencoded = ''0xc3''\<rparr>]"
  by (simp add: parse_transfers_def sort_by_start_def to_number_def tx_eval)

lemma parseLeaves_123:
  "parseLeaves sha3 [tx1, tx2, tx3]
     = Inr [MerkleTreeNode (sha3 ''0xa1'') 6, MerkleTreeNode (sha3 ''0xb2'') 94,
            MerkleTreeNode (sha3 ''0xc3'') (MAX_COIN_ID - 100)]"
proof -
  have "[1 ..< length (parse_transfers [tx1, tx2, tx3]) - 1] = [1]"
    by (simp add: parse_transfers_123 upt_rec)
  then show ?thesis
    by (simp add: parseLeaves_many parse_transfers_123 MIN_COIN_ID_def)
qed

lemma tree_123:
  "PlasmaMerkleSumTree sha3 (Some [tx1, tx2, tx3])
     = Inr \<lparr>leaves = [tx1, tx2, tx3],
            levels =
              [[MerkleTreeNode (sha3 ''0xa1'') 6, MerkleTreeNode (sha3 ''0xb2'') 94,
                MerkleTreeNode (sha3 ''0xc3'') (MAX_COIN_ID - 100)],
               [parent sha3 (MerkleTreeNode (sha3 ''0xa1'') 6) (MerkleTreeNode (sha3 ''0xb2'') 94),
                parent sha3 (MerkleTreeNode (sha3 ''0xc3'') (MAX_COIN_ID - 100)) emptyLeaf],
               [parent sha3
                  (parent sha3 (MerkleTreeNode (sha3 ''0xa1'') 6) (MerkleTreeNode (sha3 ''0xb2'') 94))
                  (parent sha3 (MerkleTreeNode (sha3 ''0xc3'') (MAX_COIN_ID - 100)) emptyLeaf)]]\<rparr>"
  by (simp add: PlasmaMerkleSumTree_def new_tree_def fst_generate parseLeaves_123 levels_above_3)




section \<open>The verifier on the trees of the tests\<close>

lemma check_loop_sums_unchanged:
  "check_loop sha3 path ps i (n, l, r) = Inr (n', l', r') \<Longrightarrow> l' = l \<and> r' = r"
proof (induction ps arbitrary: i n)
  case Nil
  then show ?case by simp
next
  case (Cons a ps)
  then show ?case
    by (cases a) (auto simp: Let_def split: if_splits)
qed

lemma sum_n_parent [simp]: "sum_n (parent sha3 l r) = sum_n l + sum_n r"
  by (simp add: parent_def)

lemma toy_sha3_b2:
  "toy_sha3 ''0xb2'' = ''0x0000000000000000000000000000000000000000000000000000000000000033''"
  by (simp add: toy_sha3_def bn_eval)







text \<open>
  Where every sibling exists the round trip succeeds: the first leaf of the tree of \<open>tx1\<close>,
  \<open>tx2\<close> and \<open>tx3\<close>.
\<close>

lemma toy_sha3_c3:
  "toy_sha3 ''0xc3'' = ''0x000000000000000000000000000000000000000000000000000000000000003a''"
  by (simp add: toy_sha3_def bn_eval)

lemma data_leaf_b2_94:
  "data (MerkleTreeNode (toy_sha3 ''0xb2'') 94)
     = ''00000000000000000000000000000000000000000000000000000000000000330000000000000000000000000000005e''"
  by (simp add: toy_sha3_b2 node_eval bn_eval)

lemma decode_leaf_b2_94:
  "MerkleTreeNode
     (bn_toString 16 64 (bn_of_hex (slice 0 32
        ''00000000000000000000000000000000000000000000000000000000000000330000000000000000000000000000005e'')))
     (bn_of_hex (slice 32 48
        ''00000000000000000000000000000000000000000000000000000000000000330000000000000000000000000000005e''))
   = MerkleTreeNode (toy_sha3 ''0xb2'') 94"
  by (simp add: toy_sha3_b2 slice_def MerkleTreeNode_def remove0x_def bn_eval)

lemma data_leaf_c3:
  "data (MerkleTreeNode (toy_sha3 ''0xc3'') 340282366920938463463374607431768211355)
     = ''000000000000000000000000000000000000000000000000000000000000003affffffffffffffffffffffffffffff9b''"
  by (simp add: toy_sha3_c3 node_eval bn_eval)

lemma data_emptyLeaf:
  "data emptyLeaf
     = ''000000000000000000000000000000000000000000000000000000000000000000000000000000000000000000000000''"
  by (simp add: node_eval bn_eval)

lemma parent_c3_empty:
  "parent toy_sha3 (MerkleTreeNode (toy_sha3 ''0xc3'') 340282366920938463463374607431768211355) emptyLeaf
     = \<lparr>hash = ''000000000000000000000000000000000000000000000000000000000000e41c'',
        sum_n = 340282366920938463463374607431768211355\<rparr>"
  unfolding parent_def data_leaf_c3 data_emptyLeaf
  by (simp add: toy_sha3_def MerkleTreeNode_def remove0x_def emptyLeaf_def bn_eval)

lemma data_parent_c3_empty:
  "data \<lparr>hash = ''000000000000000000000000000000000000000000000000000000000000e41c'',
          sum_n = 340282366920938463463374607431768211355\<rparr>
     = ''000000000000000000000000000000000000000000000000000000000000e41cffffffffffffffffffffffffffffff9b''"
  by (simp add: data_def bn_eval)

lemma decode_parent_c3_empty:
  "MerkleTreeNode
     (bn_toString 16 64 (bn_of_hex (slice 0 32
        ''000000000000000000000000000000000000000000000000000000000000e41cffffffffffffffffffffffffffffff9b'')))
     (bn_of_hex (slice 32 48
        ''000000000000000000000000000000000000000000000000000000000000e41cffffffffffffffffffffffffffffff9b''))
   = \<lparr>hash = ''000000000000000000000000000000000000000000000000000000000000e41c'',
      sum_n = 340282366920938463463374607431768211355\<rparr>"
  by (simp add: slice_def MerkleTreeNode_def remove0x_def bn_eval)

lemma path_00: "rev (bn_toString 2 (Suc (Suc 0)) 0) = ''00''"
  by (simp add: bn_eval)

lemma round_trip_with_siblings:
  "\<exists>t p r. PlasmaMerkleSumTree toy_sha3 (Some [tx1, tx2, tx3]) = Inr t
      \<and> getTransferProof t 0 = Inr p \<and> root t = Inr (Some r)
      \<and> checkTransferProof toy_sha3 tx1 0 p (data r) = Inr True"
  by (simp add: tree_123 getTransferProof_def root_def sibling_of_def
      checkTransferProof_def checkSignature_def tx_sel MAX_COIN_ID_def
      parent_c3_empty data_leaf_b2_94 decode_leaf_b2_94 data_parent_c3_empty
      decode_parent_c3_empty path_00 bn_add_def)



lemma to_number_2_53_1: "to_number 9007199254740993 = 9007199254740992"
  by (simp add: to_number_def bit_length.simps Let_def)

lemma to_number_2_53: "to_number 9007199254740992 = 9007199254740992"
  by (simp add: to_number_def bit_length.simps Let_def)

section \<open>The claims\<close>







text \<open>
  C9. \<^verbatim>\<open>checkTransactionProof\<close> returns \<^verbatim>\<open>true\<close> exactly when every transfer proof of
  the transaction proof, checked by \<^verbatim>\<open>checkTransferProof\<close> with the same transaction and
  root at its own index, returns \<^verbatim>\<open>true\<close>.
\<close>

theorem checkTransactionProof_iff:
  "checkTransactionProof sha3 tx transactionProof rt = Inr True \<longleftrightarrow>
     (\<forall>k<length (transferProofs transactionProof).
        checkTransferProof sha3 tx k (transferProofs transactionProof ! k) rt = Inr True)"
  by (simp add: checkTransactionProof_def every_from_True)

theorem checkTransactionProof_iff_witness:
  "checkTransactionProof toy_sha3 tx1 \<lparr>transferProofs = [proof1]\<rparr>
       (data (MerkleTreeNode (toy_sha3 ''0xa1'') MAX_COIN_ID)) = Inr True
   \<and> checkTransactionProof toy_sha3 tx1 \<lparr>transferProofs = [proof1]\<rparr> ''00'' \<noteq> Inr True"
proof -
  let ?rt = "data (MerkleTreeNode (toy_sha3 ''0xa1'') MAX_COIN_ID)"
  have "\<forall>k<length (transferProofs \<lparr>transferProofs = [proof1]\<rparr>).
          checkTransferProof toy_sha3 tx1 k (transferProofs \<lparr>transferProofs = [proof1]\<rparr> ! k) ?rt = Inr True"
    using check_proof1 by simp
  then have a: "checkTransactionProof toy_sha3 tx1 \<lparr>transferProofs = [proof1]\<rparr> ?rt = Inr True"
    using checkTransactionProof_iff [of toy_sha3 tx1 "\<lparr>transferProofs = [proof1]\<rparr>" ?rt] by blast
  have "\<not> (\<forall>k<length (transferProofs \<lparr>transferProofs = [proof1]\<rparr>).
          checkTransferProof toy_sha3 tx1 k (transferProofs \<lparr>transferProofs = [proof1]\<rparr> ! k) ''00'' = Inr True)"
    using check_proof1_wrong_root by simp
  then have b: "checkTransactionProof toy_sha3 tx1 \<lparr>transferProofs = [proof1]\<rparr> ''00'' \<noteq> Inr True"
    using checkTransactionProof_iff [of toy_sha3 tx1 "\<lparr>transferProofs = [proof1]\<rparr>" "''00''"] by blast
  from a b show ?thesis by blast
qed



text \<open>
  C8. On a built tree, \<^verbatim>\<open>getInclusionProof\<close> and \<^verbatim>\<open>getTransferProof\<close> raise the
  invalid-index error exactly when the index is negative or not below the number of
  leaves; for an index in range they return a proof for that very index; on the tree built
  from no leaves every request raises the error.
\<close>

theorem invalid_leaf_index:
  assumes "PlasmaMerkleSumTree sha3 arg = Inr t"
  shows "(getInclusionProof t i = Inl InvalidLeafIndex \<longleftrightarrow> i < 0 \<or> int (length (levels t ! 0)) \<le> i)
       \<and> (getTransferProof t i = Inl InvalidLeafIndex \<longleftrightarrow> i < 0 \<or> int (length (levels t ! 0)) \<le> i)
       \<and> (0 \<le> i \<and> i < int (length (levels t ! 0)) \<longrightarrow>
            (\<exists>b. getInclusionProof t i = Inr b)
            \<and> (\<exists>p. getTransferProof t i = Inr p \<and> leafIndex p = i
                   \<and> parsedSum p = sum_n (levels t ! 0 ! nat i)))
       \<and> (arg = None \<longrightarrow> levels t = [[]]
            \<and> getInclusionProof t i = Inl InvalidLeafIndex
            \<and> getTransferProof t i = Inl InvalidLeafIndex)"
proof -
  from plasma_tree_levels [OF assms] obtain bottom
    where lv: "levels t = bottom # levels_above sha3 bottom"
      and b: "case arg of None \<Rightarrow> bottom = [] | Some txs \<Rightarrow> parseLeaves sha3 txs = Inr bottom"
    by blast
  have ne: "levels t \<noteq> []" using lv by simp
  have c1: "getInclusionProof t i = Inl InvalidLeafIndex \<longleftrightarrow> i < 0 \<or> int (length (levels t ! 0)) \<le> i"
    using ne by (auto simp: getInclusionProof_def)
  have c2: "getTransferProof t i = Inl InvalidLeafIndex \<longleftrightarrow> i < 0 \<or> int (length (levels t ! 0)) \<le> i"
    using ne by (auto simp: getTransferProof_def)
  have c3: "0 \<le> i \<and> i < int (length (levels t ! 0)) \<longrightarrow>
            (\<exists>b. getInclusionProof t i = Inr b)
            \<and> (\<exists>p. getTransferProof t i = Inr p \<and> leafIndex p = i
                   \<and> parsedSum p = sum_n (levels t ! 0 ! nat i))"
    using ne by (auto simp: getInclusionProof_def getTransferProof_def)
  have c4: "arg = None \<longrightarrow> levels t = [[]]
            \<and> getInclusionProof t i = Inl InvalidLeafIndex
            \<and> getTransferProof t i = Inl InvalidLeafIndex"
  proof
    assume "arg = None"
    with b have "bottom = []" by simp
    with lv have "levels t = [[]]" by (simp add: levels_above_short)
    then show "levels t = [[]]
            \<and> getInclusionProof t i = Inl InvalidLeafIndex
            \<and> getTransferProof t i = Inl InvalidLeafIndex"
      by (auto simp: getInclusionProof_def getTransferProof_def)
  qed
  from c1 c2 c3 c4 show ?thesis by blast
qed

theorem invalid_leaf_index_witness:
  "(\<exists>t. PlasmaMerkleSumTree toy_sha3 None = Inr t
        \<and> getInclusionProof t 0 = Inl InvalidLeafIndex \<and> getTransferProof t 0 = Inl InvalidLeafIndex)
   \<and> (\<exists>t. PlasmaMerkleSumTree toy_sha3 (Some [tx1, tx2]) = Inr t
        \<and> getTransferProof t 2 = Inl InvalidLeafIndex \<and> getTransferProof t (- 1) = Inl InvalidLeafIndex
        \<and> getInclusionProof t 2 = Inl InvalidLeafIndex
        \<and> (\<exists>p. getTransferProof t 1 = Inr p \<and> leafIndex p = 1))"
proof -
  obtain t0 where t0: "PlasmaMerkleSumTree toy_sha3 None = Inr t0"
    by (simp add: PlasmaMerkleSumTree_def new_tree_def)
  from invalid_leaf_index [OF t0, of 0]
  have a: "getInclusionProof t0 0 = Inl InvalidLeafIndex \<and> getTransferProof t0 0 = Inl InvalidLeafIndex"
    by simp
  obtain t where t: "PlasmaMerkleSumTree toy_sha3 (Some [tx1, tx2]) = Inr t"
    and len: "length (levels t ! 0) = 2"
    by (simp add: PlasmaMerkleSumTree_def new_tree_def fst_generate parseLeaves_many
        length_parse_transfers tx_eval)
  from invalid_leaf_index [OF t, of 2] len
  have b: "getTransferProof t 2 = Inl InvalidLeafIndex \<and> getInclusionProof t 2 = Inl InvalidLeafIndex"
    by simp
  from invalid_leaf_index [OF t, of "- 1"]
  have c: "getTransferProof t (- 1) = Inl InvalidLeafIndex" by simp
  from invalid_leaf_index [OF t, of 1] len
  have d: "\<exists>p. getTransferProof t 1 = Inr p \<and> leafIndex p = 1" by auto
  from t0 a t b c d show ?thesis by blast
qed








text \<open>
  C6, at an input where the code fails: the comparator sees the starts \<open>2^53 + 1\<close> and
  \<open>2^53\<close> as the same Number, so the sort leaves the two leaves in their input order,
  which is descending. (Below \<open>2^53\<close> the order is ascending and stable: lemma
  \<open>sort_by_start_small\<close>.)
\<close>

theorem sort_loses_precision:
  "map lstart (parse_transfers [tx5, tx6]) = [9007199254740993, 9007199254740992]
   \<and> \<not> sorted (map lstart (parse_transfers [tx5, tx6]))"
  by (simp add: parse_transfers_def sort_by_start_def tx5_def tx6_def
      to_number_2_53_1 to_number_2_53)

end
